theory Spec2Isabelle
  imports Complex_Main "HOL-Library.Log_Nat"
begin

section \<open>Data model (frontend/src/types/index.ts)\<close>

text \<open>
  The client's types describe the JSON objects it exchanges with the API. A string-literal
  union is a datatype together with the literal each constructor stands for; an interface
  is a record; an optional property is an \<open>option\<close>. JavaScript numbers that count
  things (pages, bytes, milliseconds) are integers or naturals here, confidences and
  scores are reals. A few properties carry a longer name here than in the source, where
  the short one is taken: \<open>ev_page\<close> is \<open>page\<close> of \<open>FieldEvidence\<close>, \<open>fvalue\<close> is
  \<open>value\<close>, \<open>contract_id\<close> is \<open>id\<close>, \<open>extracted_fields\<close> is \<open>fields\<close>, and
  \<open>resp_page\<close> and \<open>resp_limit\<close> are \<open>page\<close> and \<open>limit\<close> of
  \<open>ContractListResponse\<close>.
\<close>

datatype ProcessingStatus = Pending | Processing | Completed | Failed

fun ProcessingStatus_literal :: "ProcessingStatus \<Rightarrow> string" where
  "ProcessingStatus_literal Pending = ''pending''"
| "ProcessingStatus_literal Processing = ''processing''"
| "ProcessingStatus_literal Completed = ''completed''"
| "ProcessingStatus_literal Failed = ''failed''"

text \<open>\<open>source: 'rule' | 'llm'\<close> of \<open>FieldEvidence\<close>.\<close>

datatype EvidenceSource = Rule | Llm


record FieldEvidence =
  ev_page :: int
  snippet :: string
  source :: EvidenceSource

text \<open>\<open>value: any\<close>: the JSON scalars a field value can be.\<close>

datatype FieldValue = VNull | VBool bool | VNum real | VStr string

record ExtractedField =
  fvalue :: FieldValue
  confidence :: real
  evidence :: "FieldEvidence option"

datatype GapReason = Missing | Low_confidence

datatype Severity = High | Medium | Low

record ContractGap =
  field :: string
  reason :: GapReason
  severity :: Severity

record ConfidenceSummary =
  average :: real
  low_count :: nat
  high_confidence_fields :: nat
  total_fields :: nat

record ProcessingMetadata =
  ocr_used :: bool
  llm_used :: bool
  duration_ms :: nat
  error_message :: "string option"

record Contract =
  contract_id :: string
  filename :: string
  status :: ProcessingStatus
  processing_progress :: nat
  uploaded_at :: string
  size_bytes :: nat
  mime_type :: string
  overall_score :: real
  confidence_summary :: ConfidenceSummary
  gaps :: "ContractGap list"
  extracted_fields :: "(string \<times> ExtractedField) list"
  processing :: ProcessingMetadata

record ContractListResponse =
  total :: nat
  resp_page :: int
  resp_limit :: nat
  contracts :: "Contract list"

text \<open>
  The properties of the JSON object an interface describes, in declaration order, each
  with its value; an optional property that is absent is left out of the object.
\<close>

datatype json = JNull | JBool bool | JNum real | JStr string | JObj "(string \<times> json) list"


definition ProcessingMetadata_json :: "ProcessingMetadata \<Rightarrow> (string \<times> json) list" where
  "ProcessingMetadata_json m =
     [(''ocr_used'', JBool (ocr_used m)),
      (''llm_used'', JBool (llm_used m)),
      (''duration_ms'', JNum (of_nat (duration_ms m)))]
     @ (case error_message m of None \<Rightarrow> [] | Some msg \<Rightarrow> [(''error_message'', JStr msg)])"

section \<open>HTTP requests issued through axios (frontend/src/lib/api.ts)\<close>

datatype Method = GET | POST | DELETE

text \<open>A query parameter value; axios leaves a parameter whose value is undefined out.\<close>

datatype Param = PNum int | PStr string | PBool bool

record Request =
  meth :: Method
  url :: string
  params :: "(string \<times> Param) list"

text \<open>\<open>options: { use_ocr?: boolean; use_llm?: boolean } = {}\<close>\<close>

record ReprocessOptions =
  use_ocr :: "bool option"
  use_llm :: "bool option"

definition ReprocessOptions_params :: "ReprocessOptions \<Rightarrow> (string \<times> Param) list" where
  "ReprocessOptions_params opts =
     (case use_ocr opts of None \<Rightarrow> [] | Some b \<Rightarrow> [(''use_ocr'', PBool b)])
     @ (case use_llm opts of None \<Rightarrow> [] | Some b \<Rightarrow> [(''use_llm'', PBool b)])"

definition reprocessContract :: "string \<Rightarrow> ReprocessOptions \<Rightarrow> Request" where
  "reprocessContract contractId opts =
     \<lparr>meth = POST, url = ''/contracts/'' @ contractId @ ''/reprocess'',
      params = ReprocessOptions_params opts\<rparr>"

section \<open>The contract detail page (ContractDetailPage)\<close>

text \<open>
  \<open>refetchInterval\<close> of the detail query: \<open>query.state.data?.status === 'processing' ? 5000 : false\<close>.
  \<open>None\<close> is \<open>false\<close> (no automatic refetch); the data is \<open>None\<close> until the first
  response arrives.
\<close>

definition detail_refetchInterval :: "Contract option \<Rightarrow> nat option" where
  "detail_refetchInterval data =
     (if (case data of None \<Rightarrow> False | Some c \<Rightarrow> status c = Processing)
      then Some 5000 else None)"

text \<open>
  \<open>handleReprocess\<close>: nothing without a contract, otherwise one reprocess request with
  \<open>{ use_ocr: true }\<close>.
\<close>

definition handleReprocess :: "Contract option \<Rightarrow> Request list" where
  "handleReprocess contract =
     (case contract of
        None \<Rightarrow> []
      | Some c \<Rightarrow> [reprocessContract (contract_id c) \<lparr>use_ocr = Some True, use_llm = None\<rparr>])"

text \<open>
  The buttons the page renders, in document order, each with its click handler. The page
  shows a spinner while loading, the "not found" panel on an error or without data, and
  the contract otherwise.
\<close>

datatype Handler = RouterBack | RouterPushContracts | HandleReprocess | HandleDownload

record Button =
  label :: string
  onClick :: Handler

definition detail_buttons :: "bool \<Rightarrow> bool \<Rightarrow> Contract option \<Rightarrow> Button list" where
  "detail_buttons isLoading err contract =
     (if isLoading then []
      else case (if err then None else contract) of
        None \<Rightarrow> [\<lparr>label = ''Back to Contracts'', onClick = RouterPushContracts\<rparr>]
      | Some c \<Rightarrow>
          [\<lparr>label = ''ArrowLeft'', onClick = RouterBack\<rparr>]
          @ (if status c = Completed
             then [\<lparr>label = ''Reprocess'', onClick = HandleReprocess\<rparr>] else [])
          @ [\<lparr>label = ''Download'', onClick = HandleDownload\<rparr>]
          @ (if status c = Failed
             then [\<lparr>label = ''Try Again'', onClick = HandleReprocess\<rparr>] else []))"

definition offers_reprocess :: "Button list \<Rightarrow> bool" where
  "offers_reprocess bs = list_ex (\<lambda>b. onClick b = HandleReprocess) bs"

text \<open>
  The error card: rendered only for a failed contract, with
  \<open>contract.processing.error_message || 'An error occurred during processing'\<close>
  (an empty message is falsy, so the default text stands in for it too).
\<close>

definition detail_error_text :: "Contract \<Rightarrow> string option" where
  "detail_error_text c =
     (if status c = Failed
      then Some (case error_message (processing c) of
                   None \<Rightarrow> ''An error occurred during processing''
                 | Some msg \<Rightarrow> if msg = [] then ''An error occurred during processing'' else msg)
      else None)"



section \<open>The contract list page (frontend/src/app/contracts/page.tsx)\<close>

text \<open>
  \<open>listContracts\<close> takes an object whose properties are all optional and passes it to
  axios as the query parameters of \<open>GET /contracts\<close>.
\<close>

record ListParams =
  p_page :: "int option"
  p_limit :: "int option"
  p_status :: "string option"
  p_sort_by :: "string option"
  p_sort_order :: "string option"

definition listContracts :: "ListParams \<Rightarrow> Request" where
  "listContracts ps =
     \<lparr>meth = GET, url = ''/contracts'',
      params =
        (case p_page ps of None \<Rightarrow> [] | Some n \<Rightarrow> [(''page'', PNum n)])
        @ (case p_limit ps of None \<Rightarrow> [] | Some n \<Rightarrow> [(''limit'', PNum n)])
        @ (case p_status ps of None \<Rightarrow> [] | Some v \<Rightarrow> [(''status'', PStr v)])
        @ (case p_sort_by ps of None \<Rightarrow> [] | Some v \<Rightarrow> [(''sort_by'', PStr v)])
        @ (case p_sort_order ps of None \<Rightarrow> [] | Some v \<Rightarrow> [(''sort_order'', PStr v)])\<rparr>"

text \<open>
  The four \<open>useState\<close> cells of the page. The status filter, the sort key and the sort
  order hold the string a \<open>select\<close> reported; the empty status filter means "all".
\<close>

record PageState =
  page :: int
  statusFilter :: string
  sortBy :: string
  sortOrder :: string

definition initial_state :: PageState where
  "initial_state = \<lparr>page = 1, statusFilter = [], sortBy = ''uploaded_at'', sortOrder = ''desc''\<rparr>"

text \<open>The query function of the list query; \<open>statusFilter || undefined\<close> drops the empty filter.\<close>

definition list_query :: "PageState \<Rightarrow> Request" where
  "list_query s =
     listContracts
       \<lparr>p_page = Some (page s), p_limit = Some 10,
        p_status = (if statusFilter s = [] then None else Some (statusFilter s)),
        p_sort_by = Some (sortBy s), p_sort_order = Some (sortOrder s)\<rparr>"

text \<open>\<open>refetchInterval\<close> of the list query: 5000 when some listed contract is processing.\<close>

definition list_refetchInterval :: "ContractListResponse option \<Rightarrow> nat option" where
  "list_refetchInterval data =
     (let hasProcessing =
            (case data of
               None \<Rightarrow> False
             | Some d \<Rightarrow> list_ex (\<lambda>c. status c = Processing) (contracts d))
      in if hasProcessing then Some 5000 else None)"

text \<open>The options of the three \<open>select\<close> controls: value and label, in document order.\<close>

definition statusFilter_options :: "(string \<times> string) list" where
  "statusFilter_options =
     [([], ''All statuses''), (''pending'', ''Pending''), (''processing'', ''Processing''),
      (''completed'', ''Completed''), (''failed'', ''Failed'')]"

definition sortBy_options :: "(string \<times> string) list" where
  "sortBy_options =
     [(''uploaded_at'', ''Upload Date''), (''overall_score'', ''Score''),
      (''filename'', ''Filename'')]"

definition sortOrder_options :: "(string \<times> string) list" where
  "sortOrder_options = [(''desc'', ''Descending''), (''asc'', ''Ascending'')]"

text \<open>
  The pagination block is rendered for \<open>contractsData && contractsData.total > 10\<close>;
  Previous is disabled for \<open>page <= 1\<close>, Next for \<open>page >= Math.ceil(total / 10)\<close>.
\<close>

definition pagination_rendered :: "ContractListResponse option \<Rightarrow> bool" where
  "pagination_rendered contractsData =
     (case contractsData of None \<Rightarrow> False | Some d \<Rightarrow> total d > 10)"

definition page_count :: "ContractListResponse \<Rightarrow> int" where
  "page_count d = \<lceil>real (total d) / 10\<rceil>"

definition previous_disabled :: "PageState \<Rightarrow> bool" where
  "previous_disabled s = (page s \<le> 1)"

definition next_disabled :: "ContractListResponse \<Rightarrow> PageState \<Rightarrow> bool" where
  "next_disabled d s = (page s \<ge> page_count d)"

text \<open>
  What the user can do on the page. The three change handlers store \<open>e.target.value\<close>
  as it comes; a click on a button that is not rendered or is disabled runs no handler.
\<close>

datatype Click = Previous | Next

datatype Event =
  StatusFilterChanged string
| SortByChanged string
| SortOrderChanged string
| Clicked Click

fun handle :: "ContractListResponse option \<Rightarrow> Event \<Rightarrow> PageState \<Rightarrow> PageState" where
  "handle contractsData (StatusFilterChanged v) s = s\<lparr>statusFilter := v\<rparr>"
| "handle contractsData (SortByChanged v) s = s\<lparr>sortBy := v\<rparr>"
| "handle contractsData (SortOrderChanged v) s = s\<lparr>sortOrder := v\<rparr>"
| "handle contractsData (Clicked Previous) s =
     (case contractsData of
        None \<Rightarrow> s
      | Some d \<Rightarrow>
          if pagination_rendered contractsData \<and> \<not> previous_disabled s
          then s\<lparr>page := page s - 1\<rparr> else s)"
| "handle contractsData (Clicked Next) s =
     (case contractsData of
        None \<Rightarrow> s
      | Some d \<Rightarrow>
          if pagination_rendered contractsData \<and> \<not> next_disabled d s
          then s\<lparr>page := page s + 1\<rparr> else s)"

text \<open>
  A session on the page: each event arrives together with the list response on display
  at that moment (the response changes as queries complete).
\<close>

fun run :: "(ContractListResponse option \<times> Event) list \<Rightarrow> PageState \<Rightarrow> PageState" where
  "run [] s = s"
| "run ((contractsData, e) # rest) s = run rest (handle contractsData e s)"

text \<open>
  The change events a browser delivers: a \<open>select\<close> reports the value of one of its
  options. Clicks are not restricted.
\<close>

fun select_reports_option :: "Event \<Rightarrow> bool" where
  "select_reports_option (StatusFilterChanged v) = (v \<in> set (map fst statusFilter_options))"
| "select_reports_option (SortByChanged v) = (v \<in> set (map fst sortBy_options))"
| "select_reports_option (SortOrderChanged v) = (v \<in> set (map fst sortOrder_options))"
| "select_reports_option (Clicked b) = True"

text \<open>
  The error line of a list entry:
  \<open>contract.status === 'failed' && contract.processing.error_message\<close>.
\<close>

definition list_error_text :: "Contract \<Rightarrow> string option" where
  "list_error_text c =
     (if status c = Failed
      then (case error_message (processing c) of
              None \<Rightarrow> None
            | Some msg \<Rightarrow> if msg = [] then None else Some msg)
      else None)"

section \<open>Presentation helpers (frontend/src/lib/utils.ts)\<close>

definition getConfidenceColor :: "real \<Rightarrow> string" where
  "getConfidenceColor c =
     (if c \<ge> 0.8 then ''text-green-600''
      else if c \<ge> 0.6 then ''text-yellow-600''
      else ''text-red-600'')"

definition getConfidenceBadgeVariant :: "real \<Rightarrow> string" where
  "getConfidenceBadgeVariant c =
     (if c \<ge> 0.8 then ''default''
      else if c \<ge> 0.6 then ''secondary''
      else ''destructive'')"

text \<open>The detail page's own \<open>getConfidenceColor\<close>.\<close>

definition detail_getConfidenceColor :: "real \<Rightarrow> string" where
  "detail_getConfidenceColor c =
     (if c \<ge> 0.8 then ''text-green-600 bg-green-50 border-green-200''
      else if c \<ge> 0.6 then ''text-yellow-600 bg-yellow-50 border-yellow-200''
      else ''text-red-600 bg-red-50 border-red-200'')"

text \<open>
  The specification's reading, for comparison: a classification that receives the low and
  high thresholds as configuration.
\<close>

datatype Tier = HighTier | MediumTier | LowTier

definition spec_tier :: "real \<Rightarrow> real \<Rightarrow> real \<Rightarrow> Tier" where
  "spec_tier low high c =
     (if c \<ge> high then HighTier else if c \<ge> low then MediumTier else LowTier)"

fun tier_color :: "Tier \<Rightarrow> string" where
  "tier_color HighTier = ''text-green-600''"
| "tier_color MediumTier = ''text-yellow-600''"
| "tier_color LowTier = ''text-red-600''"

fun tier_badge :: "Tier \<Rightarrow> string" where
  "tier_badge HighTier = ''default''"
| "tier_badge MediumTier = ''secondary''"
| "tier_badge LowTier = ''destructive''"

fun tier_detail_color :: "Tier \<Rightarrow> string" where
  "tier_detail_color HighTier = ''text-green-600 bg-green-50 border-green-200''"
| "tier_detail_color MediumTier = ''text-yellow-600 bg-yellow-50 border-yellow-200''"
| "tier_detail_color LowTier = ''text-red-600 bg-red-50 border-red-200''"

subsection \<open>formatFileSize\<close>














section \<open>The upload form (FileUpload)\<close>

record File =
  file_name :: string
  file_type :: string
  file_size :: nat

text \<open>
  \<open>useDropzone\<close> belongs to the react-dropzone package, which the repository uses and does
  not contain. The component configures it with
  \<open>accept: {'application/pdf': ['.pdf']}, maxFiles: 1, maxSize: 50 * 1024 * 1024\<close>;
  the package's check of dropped files is modelled here as the package performs it for
  these options. A file that comes without a MIME type is first given the type the
  package's table of common types lists for its extension, if any. The accept map is
  flattened into its MIME types and extensions, and a file passes the type check when
  one of them matches (a MIME type against the file's type, an extension against the end
  of its name, both without regard to letter case; the placeholder type Firefox gives
  dragged files passes too). It passes the size check when it is no larger than
  \<open>maxSize\<close>, and when more files pass than \<open>maxFiles\<close> allows all of them are
  rejected. \<open>onDrop\<close> then receives the accepted files. The table of common types is
  a parameter \<open>tbl\<close> of the model, from extension to MIME type.
\<close>

datatype ErrorCode = File_invalid_type | File_too_large | Too_many_files

record FileRejection =
  rejected_file :: File
  errors :: "ErrorCode list"

record DropzoneOptions =
  accept :: "(string \<times> string list) list"
  maxFiles :: nat
  maxSize :: nat

definition dropzone_options :: DropzoneOptions where
  "dropzone_options =
     \<lparr>accept = [(''application/pdf'', [''.pdf''])], maxFiles = 1, maxSize = 50 * 1024 * 1024\<rparr>"

definition lower_char :: "char \<Rightarrow> char" where
  "lower_char c =
     (let n = (of_char c :: nat) in if 65 \<le> n \<and> n \<le> 90 then char_of (n + 32) else c)"

definition toLowerCase :: "string \<Rightarrow> string" where
  "toLowerCase s = map lower_char s"

definition endsWith :: "string \<Rightarrow> string \<Rightarrow> bool" where
  "endsWith s suffix = (take (length suffix) (rev s) = rev suffix)"

text \<open>
  \<open>withMimeType\<close>: for a name with a dot and an empty type, the extension is
  \<open>name.split('.').pop().toLowerCase()\<close> and the type becomes the table's entry for it.
\<close>

definition file_extension :: "string \<Rightarrow> string option" where
  "file_extension name =
     (if CHR ''.'' \<in> set name
      then Some (toLowerCase (rev (takeWhile (\<lambda>c. c \<noteq> CHR ''.'') (rev name))))
      else None)"

definition withMimeType :: "(string \<rightharpoonup> string) \<Rightarrow> File \<Rightarrow> File" where
  "withMimeType tbl file =
     (if file_type file = []
      then (case file_extension (file_name file) of
              None \<Rightarrow> file
            | Some ext \<Rightarrow>
                (case tbl ext of None \<Rightarrow> file | Some t \<Rightarrow> file\<lparr>file_type := t\<rparr>))
      else file)"

text \<open>A few entries of the package's table, to evaluate the model on.\<close>

definition COMMON_MIME_TYPES :: "(string \<times> string) list" where
  "COMMON_MIME_TYPES =
     [(''pdf'', ''application/pdf''), (''txt'', ''text/plain''), (''png'', ''image/png''),
      (''doc'', ''application/msword'')]"

definition acceptPropAsAcceptAttr :: "(string \<times> string list) list \<Rightarrow> string list" where
  "acceptPropAsAcceptAttr acc = concat (map (\<lambda>(mimeType, exts). mimeType # exts) acc)"

definition type_matches :: "File \<Rightarrow> string \<Rightarrow> bool" where
  "type_matches file t =
     (let validType = toLowerCase t;
          mimeType = toLowerCase (file_type file)
      in if validType \<noteq> [] \<and> hd validType = CHR ''.''
         then endsWith (toLowerCase (file_name file)) validType
         else if endsWith validType ''/*''
         then takeWhile (\<lambda>c. c \<noteq> CHR ''/'') mimeType = takeWhile (\<lambda>c. c \<noteq> CHR ''/'') validType
         else mimeType = validType)"

definition fileAccepted :: "File \<Rightarrow> string list \<Rightarrow> bool" where
  "fileAccepted file acceptAttr =
     (file_type file = ''application/x-moz-file''
      \<or> acceptAttr = [] \<or> list_ex (type_matches file) acceptAttr)"

definition fileMatchSize :: "File \<Rightarrow> nat \<Rightarrow> bool" where
  "fileMatchSize file mx = (\<not> file_size file > mx)"

definition file_errors :: "DropzoneOptions \<Rightarrow> File \<Rightarrow> ErrorCode list" where
  "file_errors opts file =
     (if fileAccepted file (acceptPropAsAcceptAttr (accept opts)) then [] else [File_invalid_type])
     @ (if fileMatchSize file (maxSize opts) then [] else [File_too_large])"

definition drop_files :: "DropzoneOptions \<Rightarrow> (string \<rightharpoonup> string) \<Rightarrow> File list
    \<Rightarrow> File list \<times> FileRejection list" where
  "drop_files opts tbl dropped =
     (let files = map (withMimeType tbl) dropped;
          acceptedFiles = filter (\<lambda>f. file_errors opts f = []) files;
          fileRejections =
            map (\<lambda>f. \<lparr>rejected_file = f, errors = file_errors opts f\<rparr>)
              (filter (\<lambda>f. file_errors opts f \<noteq> []) files)
      in if maxFiles opts \<ge> 1 \<and> length acceptedFiles > maxFiles opts
         then ([], fileRejections
                   @ map (\<lambda>f. \<lparr>rejected_file = f, errors = [Too_many_files]\<rparr>) acceptedFiles)
         else (acceptedFiles, fileRejections))"

text \<open>
  The component's own code. \<open>uploadMutation.mutate(file)\<close> runs
  \<open>contractsApi.uploadContract(file)\<close>, the one place that posts to
  \<open>/contracts/upload\<close>; \<open>onDrop\<close> looks at the first accepted file only.
\<close>

datatype Effect = SetUploadProgress nat | UploadContract File

definition onDrop :: "File list \<Rightarrow> Effect list" where
  "onDrop acceptedFiles =
     (case acceptedFiles of
        [] \<Rightarrow> []
      | file # _ \<Rightarrow> [SetUploadProgress 10, UploadContract file])"

text \<open>Files presented to the form: the dropzone's check, then \<open>onDrop\<close>, and the rejections shown.\<close>

definition present_files :: "(string \<rightharpoonup> string) \<Rightarrow> File list \<Rightarrow> Effect list" where
  "present_files tbl files = onDrop (fst (drop_files dropzone_options tbl files))"

definition shown_rejections :: "(string \<rightharpoonup> string) \<Rightarrow> File list \<Rightarrow> FileRejection list" where
  "shown_rejections tbl files = snd (drop_files dropzone_options tbl files)"

section \<open>Auxiliary notions for the proofs\<close>

text \<open>The three selections of the list page each hold a value their \<open>select\<close> offers.\<close>

definition selections_offered :: "PageState \<Rightarrow> bool" where
  "selections_offered s =
     (statusFilter s \<in> set (map fst statusFilter_options)
      \<and> sortBy s \<in> set (map fst sortBy_options)
      \<and> sortOrder s \<in> set (map fst sortOrder_options))"

text \<open>The page number lies between 1 and the number of pages of a list of \<open>n\<close> contracts.\<close>

definition page_within :: "nat \<Rightarrow> PageState \<Rightarrow> bool" where
  "page_within n s = (1 \<le> page s \<and> page s \<le> \<lceil>real n / 10\<rceil>)"

text \<open>A sequence of clicks, each made against the list response on display at that moment.\<close>

definition clicks_on :: "(ContractListResponse \<times> Click) list
    \<Rightarrow> (ContractListResponse option \<times> Event) list" where
  "clicks_on dbs = map (\<lambda>db. (Some (fst db), Clicked (snd db))) dbs"

text \<open>A contract record to evaluate the statements on, with a chosen status and error message.\<close>

definition sample_contract :: "ProcessingStatus \<Rightarrow> string option \<Rightarrow> Contract" where
  "sample_contract st msg =
     \<lparr>contract_id = ''c1'', filename = ''msa.pdf'', status = st, processing_progress = 100,
      uploaded_at = ''2024-01-15T10:00:00Z'', size_bytes = 2048, mime_type = ''application/pdf'',
      overall_score = 72,
      confidence_summary = \<lparr>average = 0.7, low_count = 0, high_confidence_fields = 0, total_fields = 0\<rparr>,
      gaps = [], extracted_fields = [],
      processing = \<lparr>ocr_used = False, llm_used = False, duration_ms = 1200, error_message = msg\<rparr>\<rparr>"

text \<open>The list request the page issues after a session that began with the page's initial state.\<close>

definition list_request_after :: "(ContractListResponse option \<times> Event) list \<Rightarrow> Request" where
  "list_request_after steps = list_query (run steps initial_state)"

text \<open>
  The two checks of the upload form with its options written out, on a file as the
  dropzone sees it: the type check (MIME type \<open>application/pdf\<close>, or a name ending in
  \<open>.pdf\<close>, or the placeholder type) and the size limit of 50 MB.
\<close>

definition passes_type_check :: "File \<Rightarrow> bool" where
  "passes_type_check f =
     (toLowerCase (file_type f) = ''application/pdf''
      \<or> endsWith (toLowerCase (file_name f)) ''.pdf''
      \<or> file_type f = ''application/x-moz-file'')"

definition passes_checks :: "File \<Rightarrow> bool" where
  "passes_checks f = (passes_type_check f \<and> file_size f \<le> 50 * 1024 * 1024)"




section \<open>Proofs\<close>

subsection \<open>Sample data\<close>

lemma sample_contract_simps:
  "status (sample_contract st msg) = st"
  "contract_id (sample_contract st msg) = ''c1''"
  "error_message (processing (sample_contract st msg)) = msg"
  by (simp_all add: sample_contract_def)

subsection \<open>Reprocessing is offered for completed and failed contracts\<close>

lemma offers_reprocess_loaded:
  "offers_reprocess (detail_buttons False False (Some c)) =
     (status c = Completed \<or> status c = Failed)"
  by (simp add: offers_reprocess_def detail_buttons_def)

lemma handleReprocess_loaded:
  "handleReprocess (Some c) =
     [\<lparr>meth = POST, url = ''/contracts/'' @ contract_id c @ ''/reprocess'',
       params = [(''use_ocr'', PBool True)]\<rparr>]"
  by (simp add: handleReprocess_def reprocessContract_def ReprocessOptions_params_def)

text \<open>
  C6. On the detail view of a loaded contract a button bound to \<open>handleReprocess\<close> is
  rendered exactly when the status is completed or failed (and so never for pending or
  processing); clicking it issues one reprocess request for that contract; a failed
  contract is shown with an error text, its own message when it has a non-empty one.
\<close>

theorem reprocess_offered_iff_completed_or_failed:
  "(offers_reprocess (detail_buttons False False (Some c))
      \<longleftrightarrow> status c = Completed \<or> status c = Failed)
   \<and> (status c = Pending \<or> status c = Processing
      \<longleftrightarrow> \<not> offers_reprocess (detail_buttons False False (Some c)))
   \<and> length (handleReprocess (Some c)) = 1
   \<and> url (hd (handleReprocess (Some c))) = ''/contracts/'' @ contract_id c @ ''/reprocess''
   \<and> (detail_error_text c \<noteq> None \<longleftrightarrow> status c = Failed)
   \<and> (status c = Failed \<and> error_message (processing c) = Some msg \<and> msg \<noteq> []
      \<longrightarrow> detail_error_text c = Some msg)"
proof -
  have a: "offers_reprocess (detail_buttons False False (Some c))
      \<longleftrightarrow> status c = Completed \<or> status c = Failed"
    by (rule offers_reprocess_loaded)
  have b: "status c = Pending \<or> status c = Processing
      \<longleftrightarrow> \<not> offers_reprocess (detail_buttons False False (Some c))"
    unfolding a by (cases "status c") simp_all
  have c: "length (handleReprocess (Some c)) = 1"
    by (simp add: handleReprocess_loaded)
  have d: "url (hd (handleReprocess (Some c))) = ''/contracts/'' @ contract_id c @ ''/reprocess''"
    by (simp add: handleReprocess_loaded)
  have e: "detail_error_text c \<noteq> None \<longleftrightarrow> status c = Failed"
    by (simp add: detail_error_text_def)
  have f: "status c = Failed \<and> error_message (processing c) = Some msg \<and> msg \<noteq> []
      \<longrightarrow> detail_error_text c = Some msg"
    by (simp add: detail_error_text_def)
  from a b c d e f show ?thesis by blast
qed

theorem reprocess_offered_iff_completed_or_failed_witness:
  "offers_reprocess (detail_buttons False False (Some (sample_contract Failed (Some ''boom''))))
   \<and> offers_reprocess (detail_buttons False False (Some (sample_contract Completed None)))
   \<and> \<not> offers_reprocess (detail_buttons False False (Some (sample_contract Processing None)))
   \<and> \<not> offers_reprocess (detail_buttons False False (Some (sample_contract Pending None)))
   \<and> url (hd (handleReprocess (Some (sample_contract Failed (Some ''boom'')))))
       = ''/contracts/c1/reprocess''
   \<and> detail_error_text (sample_contract Failed (Some ''boom'')) = Some ''boom''"
  using reprocess_offered_iff_completed_or_failed [of "sample_contract Failed (Some ''boom'')" "''boom''"]
    reprocess_offered_iff_completed_or_failed [of "sample_contract Completed None" "''boom''"]
    reprocess_offered_iff_completed_or_failed [of "sample_contract Processing None" "''boom''"]
    reprocess_offered_iff_completed_or_failed [of "sample_contract Pending None" "''boom''"]
  by (simp add: sample_contract_simps)

subsection \<open>Polling\<close>

lemma detail_poll:
  "(detail_refetchInterval (Some c) = Some 5000 \<longleftrightarrow> status c = Processing)
   \<and> (detail_refetchInterval (Some c) = None \<longleftrightarrow> status c \<noteq> Processing)
   \<and> detail_refetchInterval None = None"
  by (simp add: detail_refetchInterval_def)

lemma list_poll:
  "(list_refetchInterval (Some d) = Some 5000 \<longleftrightarrow> (\<exists>c \<in> set (contracts d). status c = Processing))
   \<and> (list_refetchInterval (Some d) = None \<longleftrightarrow> (\<forall>c \<in> set (contracts d). status c \<noteq> Processing))
   \<and> list_refetchInterval None = None"
  by (simp add: list_refetchInterval_def list_ex_iff)

text \<open>
  C8. The refetch interval of the detail query is 5000 ms exactly when the contract on
  display is processing, and that of the list query exactly when some listed contract is
  processing; in every other case (completed, failed, pending, or no data yet) it is
  \<open>false\<close>, which switches automatic refetching off. The interval is what the
  component hands to the query library, which does the timing.
\<close>

theorem polling_only_while_processing:
  "(detail_refetchInterval (Some c) = Some 5000 \<longleftrightarrow> status c = Processing)
   \<and> (detail_refetchInterval (Some c) = None \<longleftrightarrow> status c \<noteq> Processing)
   \<and> detail_refetchInterval None = None
   \<and> (list_refetchInterval (Some d) = Some 5000
        \<longleftrightarrow> (\<exists>c \<in> set (contracts d). status c = Processing))
   \<and> (list_refetchInterval (Some d) = None
        \<longleftrightarrow> (\<forall>c \<in> set (contracts d). status c \<noteq> Processing))
   \<and> list_refetchInterval None = None"
  using detail_poll [of c] list_poll [of d] by blast

theorem polling_only_while_processing_witness:
  "detail_refetchInterval (Some (sample_contract Processing None)) = Some 5000
   \<and> detail_refetchInterval (Some (sample_contract Completed None)) = None
   \<and> detail_refetchInterval (Some (sample_contract Failed (Some ''boom''))) = None
   \<and> list_refetchInterval
        (Some \<lparr>total = 2, resp_page = 1, resp_limit = 10,
               contracts = [sample_contract Completed None, sample_contract Processing None]\<rparr>)
      = Some 5000
   \<and> list_refetchInterval
        (Some \<lparr>total = 2, resp_page = 1, resp_limit = 10,
               contracts = [sample_contract Completed None, sample_contract Failed None]\<rparr>)
      = None"
  using polling_only_while_processing [of "sample_contract Processing None"
      "\<lparr>total = 2, resp_page = 1, resp_limit = 10,
        contracts = [sample_contract Completed None, sample_contract Processing None]\<rparr>"]
    polling_only_while_processing [of "sample_contract Completed None"
      "\<lparr>total = 2, resp_page = 1, resp_limit = 10,
        contracts = [sample_contract Completed None, sample_contract Failed None]\<rparr>"]
    polling_only_while_processing [of "sample_contract Failed (Some ''boom'')"
      "\<lparr>total = 0, resp_page = 1, resp_limit = 10, contracts = []\<rparr>"]
  by (simp add: sample_contract_simps)

subsection \<open>Pagination\<close>

lemma page_within_initial: "10 < n \<Longrightarrow> page_within n initial_state"
proof -
  assume "10 < n"
  then have "2 \<le> \<lceil>real n / 10\<rceil>" by linarith
  then show ?thesis by (simp add: page_within_def initial_state_def)
qed

lemma page_within_click:
  "page_within (total d) s \<Longrightarrow> page_within (total d) (handle (Some d) (Clicked b) s)"
  by (cases b)
    (auto simp: page_within_def previous_disabled_def next_disabled_def page_count_def)

lemma page_within_clicks:
  "\<forall>db \<in> set dbs. total (fst db) = n \<Longrightarrow> page_within n s
     \<Longrightarrow> page_within n (run (clicks_on dbs) s)"
proof (induction dbs arbitrary: s)
  case Nil
  then show ?case by (simp add: clicks_on_def)
next
  case (Cons db dbs)
  have t: "total (fst db) = n" using Cons.prems(1) by simp
  have "page_within n (handle (Some (fst db)) (Clicked (snd db)) s)"
    using page_within_click [of "fst db" s "snd db"] Cons.prems(2) t by simp
  then have "page_within n (run (clicks_on dbs) (handle (Some (fst db)) (Clicked (snd db)) s))"
    using Cons.IH Cons.prems(1) by simp
  then show ?case by (simp add: clicks_on_def)
qed

lemma page_fixed_click:
  "total d \<le> 10 \<Longrightarrow> page (handle (Some d) (Clicked b) s) = page s"
  by (cases b) (auto simp: pagination_rendered_def)

lemma page_fixed_clicks:
  "\<forall>db \<in> set dbs. total (fst db) \<le> 10 \<Longrightarrow> page (run (clicks_on dbs) s) = page s"
  by (induction dbs arbitrary: s) (auto simp: page_fixed_click clicks_on_def)

text \<open>
  C10, as stated, fails: the list total can shrink between clicks (contracts are deleted,
  and the next response reports fewer). After two clicks on Next against a list of 25
  contracts the page is 3; when the list then has 12 contracts, the page number is still
  3 while \<open>ceil(12 / 10)\<close> is 2 (the page reads "Page 3 of 2"), and Next, now disabled,
  leaves it there.
\<close>

theorem page_above_shrunk_total_counterexample:
  "page (run (clicks_on
      [(\<lparr>total = 25, resp_page = 1, resp_limit = 10, contracts = []\<rparr>, Next),
       (\<lparr>total = 25, resp_page = 2, resp_limit = 10, contracts = []\<rparr>, Next),
       (\<lparr>total = 12, resp_page = 3, resp_limit = 10, contracts = []\<rparr>, Next)])
     initial_state) = 3
   \<and> \<lceil>real (total \<lparr>total = 12, resp_page = 3, resp_limit = 10, contracts = []\<rparr>) / 10\<rceil> = 2"
  by (simp add: clicks_on_def initial_state_def pagination_rendered_def next_disabled_def
      page_count_def)

text \<open>
  C10, amended. Starting from page 1, any sequence of clicks on Previous and Next made
  while the list total stays the same, at some \<open>n\<close>, leaves the page number between 1
  and \<open>ceil(n / 10)\<close> when \<open>n\<close> is more than ten; with at most ten contracts the controls
  are not rendered and the page number stays 1.
\<close>

theorem pagination_keeps_page_in_range:
  "\<forall>db \<in> set dbs. total (fst db) = n \<Longrightarrow>
   (10 < n \<longrightarrow>
      1 \<le> page (run (clicks_on dbs) initial_state)
      \<and> page (run (clicks_on dbs) initial_state) \<le> \<lceil>real n / 10\<rceil>)
   \<and> (n \<le> 10 \<longrightarrow> page (run (clicks_on dbs) initial_state) = 1)"
proof (intro conjI impI)
  assume same: "\<forall>db \<in> set dbs. total (fst db) = n" and big: "10 < n"
  have r: "page_within n (run (clicks_on dbs) initial_state)"
    by (rule page_within_clicks [OF same page_within_initial [OF big]])
  show "1 \<le> page (run (clicks_on dbs) initial_state)"
    using r by (simp add: page_within_def)
  show "page (run (clicks_on dbs) initial_state) \<le> \<lceil>real n / 10\<rceil>"
    using r by (simp add: page_within_def)
next
  assume same: "\<forall>db \<in> set dbs. total (fst db) = n" and "n \<le> 10"
  then have "\<forall>db \<in> set dbs. total (fst db) \<le> 10" by simp
  then show "page (run (clicks_on dbs) initial_state) = 1"
    by (simp add: page_fixed_clicks initial_state_def)
qed

theorem pagination_keeps_page_in_range_witness:
  "page (run (clicks_on
      [(\<lparr>total = 25, resp_page = 1, resp_limit = 10, contracts = []\<rparr>, Previous),
       (\<lparr>total = 25, resp_page = 1, resp_limit = 10, contracts = []\<rparr>, Next),
       (\<lparr>total = 25, resp_page = 2, resp_limit = 10, contracts = []\<rparr>, Next),
       (\<lparr>total = 25, resp_page = 3, resp_limit = 10, contracts = []\<rparr>, Next),
       (\<lparr>total = 25, resp_page = 3, resp_limit = 10, contracts = []\<rparr>, Next)])
     initial_state) = 3
   \<and> \<lceil>real (25::nat) / 10\<rceil> = (3::int)
   \<and> page (run (clicks_on
      [(\<lparr>total = 7, resp_page = 1, resp_limit = 10, contracts = []\<rparr>, Next),
       (\<lparr>total = 7, resp_page = 1, resp_limit = 10, contracts = []\<rparr>, Next)])
     initial_state) = 1"
  using pagination_keeps_page_in_range
      [of "[(\<lparr>total = 25, resp_page = 1, resp_limit = 10, contracts = []\<rparr>, Previous),
       (\<lparr>total = 25, resp_page = 1, resp_limit = 10, contracts = []\<rparr>, Next),
       (\<lparr>total = 25, resp_page = 2, resp_limit = 10, contracts = []\<rparr>, Next),
       (\<lparr>total = 25, resp_page = 3, resp_limit = 10, contracts = []\<rparr>, Next),
       (\<lparr>total = 25, resp_page = 3, resp_limit = 10, contracts = []\<rparr>, Next)]" 25]
    pagination_keeps_page_in_range
      [of "[(\<lparr>total = 7, resp_page = 1, resp_limit = 10, contracts = []\<rparr>, Next),
       (\<lparr>total = 7, resp_page = 1, resp_limit = 10, contracts = []\<rparr>, Next)]" 7]
  by (simp add: clicks_on_def initial_state_def pagination_rendered_def previous_disabled_def
      next_disabled_def page_count_def)

subsection \<open>The list request\<close>

lemma selections_offered_initial: "selections_offered initial_state"
  by (simp add: selections_offered_def initial_state_def statusFilter_options_def
      sortBy_options_def sortOrder_options_def)

lemma selections_offered_handle:
  "select_reports_option e \<Longrightarrow> selections_offered s \<Longrightarrow> selections_offered (handle cd e s)"
proof (cases e)
  case (Clicked b)
  assume "selections_offered s"
  then show ?thesis using Clicked
    by (cases b) (auto simp: selections_offered_def split: option.splits)
qed (auto simp: selections_offered_def)

lemma selections_offered_run:
  "list_all (\<lambda>step. select_reports_option (snd step)) steps \<Longrightarrow> selections_offered s
     \<Longrightarrow> selections_offered (run steps s)"
  by (induction steps arbitrary: s) (auto simp: selections_offered_handle)

lemma selections_offered_after:
  "list_all (\<lambda>step. select_reports_option (snd step)) steps
     \<Longrightarrow> selections_offered (run steps initial_state)"
  by (rule selections_offered_run [OF _ selections_offered_initial])

lemma list_query_params:
  "params (list_query s) =
     [(''page'', PNum (page s)), (''limit'', PNum 10)]
     @ (if statusFilter s = [] then [] else [(''status'', PStr (statusFilter s))])
     @ [(''sort_by'', PStr (sortBy s)), (''sort_order'', PStr (sortOrder s))]"
  by (simp add: list_query_def listContracts_def)

lemma list_query_target: "meth (list_query s) = GET \<and> url (list_query s) = ''/contracts''"
  by (simp add: list_query_def listContracts_def)

text \<open>
  C7. Whatever the user did on the list page, every select reporting the value of one of
  its options, the request the page issues is a GET of
  \<open>/contracts\<close> whose parameters are \<open>page\<close> (the current page), \<open>limit\<close> (10),
  \<open>status\<close> (left out for "all", else one of the four statuses), \<open>sort_by\<close> (one of
  \<open>uploaded_at\<close>, \<open>overall_score\<close>, \<open>filename\<close>) and \<open>sort_order\<close> (\<open>asc\<close> or
  \<open>desc\<close>); the page offers exactly these three sort keys and two orders.
\<close>

theorem list_request_parameters:
  assumes offered: "list_all (\<lambda>step. select_reports_option (snd step)) steps"
  shows "meth (list_request_after steps) = GET
   \<and> url (list_request_after steps) = ''/contracts''
   \<and> (map fst (params (list_request_after steps)) = [''page'', ''limit'', ''sort_by'', ''sort_order'']
      \<or> map fst (params (list_request_after steps))
          = [''page'', ''limit'', ''status'', ''sort_by'', ''sort_order''])
   \<and> map_of (params (list_request_after steps)) ''page''
        = Some (PNum (page (run steps initial_state)))
   \<and> map_of (params (list_request_after steps)) ''limit'' = Some (PNum 10)
   \<and> map_of (params (list_request_after steps)) ''status''
        \<in> {None, Some (PStr ''pending''), Some (PStr ''processing''),
            Some (PStr ''completed''), Some (PStr ''failed'')}
   \<and> map_of (params (list_request_after steps)) ''sort_by''
        \<in> {Some (PStr ''uploaded_at''), Some (PStr ''overall_score''), Some (PStr ''filename'')}
   \<and> map_of (params (list_request_after steps)) ''sort_order''
        \<in> {Some (PStr ''asc''), Some (PStr ''desc'')}
   \<and> map fst sortBy_options = [''uploaded_at'', ''overall_score'', ''filename'']
   \<and> map fst sortOrder_options = [''desc'', ''asc'']"
proof -
  let ?s = "run steps initial_state"
  have off: "selections_offered ?s" by (rule selections_offered_after [OF offered])
  have st: "statusFilter ?s \<in> {[], ''pending'', ''processing'', ''completed'', ''failed''}"
    using off by (simp add: selections_offered_def statusFilter_options_def)
  have sb: "sortBy ?s \<in> {''uploaded_at'', ''overall_score'', ''filename''}"
    using off by (simp add: selections_offered_def sortBy_options_def)
  have so: "sortOrder ?s \<in> {''asc'', ''desc''}"
    using off by (auto simp add: selections_offered_def sortOrder_options_def)
  have p: "params (list_request_after steps) =
     [(''page'', PNum (page ?s)), (''limit'', PNum 10)]
     @ (if statusFilter ?s = [] then [] else [(''status'', PStr (statusFilter ?s))])
     @ [(''sort_by'', PStr (sortBy ?s)), (''sort_order'', PStr (sortOrder ?s))]"
    unfolding list_request_after_def by (rule list_query_params)
  have 1: "meth (list_request_after steps) = GET"
    and 2: "url (list_request_after steps) = ''/contracts''"
    unfolding list_request_after_def using list_query_target by auto
  have 3: "map fst (params (list_request_after steps)) = [''page'', ''limit'', ''sort_by'', ''sort_order'']
      \<or> map fst (params (list_request_after steps))
          = [''page'', ''limit'', ''status'', ''sort_by'', ''sort_order'']"
    unfolding p by simp
  have 4: "map_of (params (list_request_after steps)) ''page'' = Some (PNum (page ?s))"
    unfolding p by simp
  have 5: "map_of (params (list_request_after steps)) ''limit'' = Some (PNum 10)"
    unfolding p by simp
  have 6: "map_of (params (list_request_after steps)) ''status''
        \<in> {None, Some (PStr ''pending''), Some (PStr ''processing''),
            Some (PStr ''completed''), Some (PStr ''failed'')}"
    unfolding p using st by auto
  have 7: "map_of (params (list_request_after steps)) ''sort_by''
        \<in> {Some (PStr ''uploaded_at''), Some (PStr ''overall_score''), Some (PStr ''filename'')}"
    unfolding p using sb by auto
  have 8: "map_of (params (list_request_after steps)) ''sort_order''
        \<in> {Some (PStr ''asc''), Some (PStr ''desc'')}"
    unfolding p using so by auto
  have 9: "map fst sortBy_options = [''uploaded_at'', ''overall_score'', ''filename'']"
    by (simp add: sortBy_options_def)
  have 10: "map fst sortOrder_options = [''desc'', ''asc'']"
    by (simp add: sortOrder_options_def)
  from 1 2 3 4 5 6 7 8 9 10 show ?thesis by blast
qed

theorem list_request_parameters_witness:
  "list_all (\<lambda>step. select_reports_option (snd step))
     [(None, SortByChanged ''filename''), (None, SortOrderChanged ''asc''),
      (Some \<lparr>total = 25, resp_page = 1, resp_limit = 10, contracts = []\<rparr>, Clicked Next),
      (None, StatusFilterChanged ''failed'')]
   \<and> params (list_request_after
      [(None, SortByChanged ''filename''), (None, SortOrderChanged ''asc''),
       (Some \<lparr>total = 25, resp_page = 1, resp_limit = 10, contracts = []\<rparr>, Clicked Next),
       (None, StatusFilterChanged ''failed'')])
     = [(''page'', PNum 2), (''limit'', PNum 10), (''status'', PStr ''failed''),
        (''sort_by'', PStr ''filename''), (''sort_order'', PStr ''asc'')]"
proof -
  have h: "list_all (\<lambda>step. select_reports_option (snd step))
     [(None, SortByChanged ''filename''), (None, SortOrderChanged ''asc''),
      (Some \<lparr>total = 25, resp_page = 1, resp_limit = 10, contracts = []\<rparr>, Clicked Next),
      (None, StatusFilterChanged ''failed'')]"
    by (simp add: statusFilter_options_def sortBy_options_def sortOrder_options_def)
  show ?thesis
    using h list_request_parameters [OF h]
    by (simp add: list_request_after_def list_query_params initial_state_def
        pagination_rendered_def next_disabled_def page_count_def)
qed

subsection \<open>formatFileSize\<close>








































subsection \<open>Confidence tiers\<close>

text \<open>
  C4, as stated, fails: the classification functions take the confidence alone and
  compare it with the literals 0.8 and 0.6. With the thresholds configured as low = 0.5
  and high = 0.9, a classification driven by the configuration puts 0.85 in the middle
  tier, while \<open>getConfidenceColor\<close> gives it the colour of the top tier.
\<close>

theorem confidence_thresholds_not_configurable_counterexample:
  "getConfidenceColor 0.85 \<noteq> tier_color (spec_tier 0.5 0.9 0.85)"
  by (simp add: getConfidenceColor_def spec_tier_def)

text \<open>
  C4, amended. The three classification functions of the client use the fixed thresholds
  0.6 and 0.8: each agrees, for every confidence, with the threshold-driven classification
  at low = 0.6 and high = 0.8 (top tier from 0.8, middle tier from 0.6, bottom tier below).
\<close>

theorem confidence_tiers_fixed_thresholds:
  "getConfidenceColor c = tier_color (spec_tier 0.6 0.8 c)
   \<and> getConfidenceBadgeVariant c = tier_badge (spec_tier 0.6 0.8 c)
   \<and> detail_getConfidenceColor c = tier_detail_color (spec_tier 0.6 0.8 c)"
  by (simp add: getConfidenceColor_def getConfidenceBadgeVariant_def
      detail_getConfidenceColor_def spec_tier_def)

subsection \<open>Evidence records\<close>





subsection \<open>Processing metadata\<close>

text \<open>
  C2, as stated, fails: the metadata has no property \<open>model_used\<close>, and the type lets a
  contract that is not failed carry an \<open>error_message\<close>.
\<close>

theorem processing_metadata_model_used_counterexample:
  "''model_used'' \<notin> set (map fst (ProcessingMetadata_json (processing (sample_contract Completed (Some ''stale'')))))
   \<and> status (sample_contract Completed (Some ''stale'')) \<noteq> Failed
   \<and> ''error_message'' \<in> set (map fst (ProcessingMetadata_json (processing (sample_contract Completed (Some ''stale'')))))"
  by (simp add: ProcessingMetadata_json_def sample_contract_def)

text \<open>
  C2, amended. The processing metadata has the flags \<open>ocr_used\<close> and \<open>llm_used\<close>, the
  duration \<open>duration_ms\<close> and an optional \<open>error_message\<close>; the detail page and the
  list page show an error message only for a contract whose status is failed, and then
  show the contract's own message when it has a non-empty one.
\<close>

theorem processing_metadata_shape:
  "map fst (ProcessingMetadata_json m)
     = [''ocr_used'', ''llm_used'', ''duration_ms'']
       @ (if error_message m = None then [] else [''error_message''])
   \<and> map_of (ProcessingMetadata_json m) ''ocr_used'' = Some (JBool (ocr_used m))
   \<and> map_of (ProcessingMetadata_json m) ''llm_used'' = Some (JBool (llm_used m))
   \<and> map_of (ProcessingMetadata_json m) ''duration_ms'' = Some (JNum (of_nat (duration_ms m)))
   \<and> (detail_error_text c \<noteq> None \<longrightarrow> status c = Failed)
   \<and> (list_error_text c \<noteq> None \<longrightarrow> status c = Failed)
   \<and> (status c = Failed \<and> error_message (processing c) = Some msg \<and> msg \<noteq> []
        \<longrightarrow> detail_error_text c = Some msg \<and> list_error_text c = Some msg)"
  by (cases "error_message m")
    (simp_all add: ProcessingMetadata_json_def detail_error_text_def list_error_text_def)

theorem processing_metadata_shape_witness:
  "map fst (ProcessingMetadata_json (processing (sample_contract Failed (Some ''boom''))))
     = [''ocr_used'', ''llm_used'', ''duration_ms'', ''error_message'']
   \<and> detail_error_text (sample_contract Failed (Some ''boom'')) = Some ''boom''
   \<and> list_error_text (sample_contract Failed (Some ''boom'')) = Some ''boom''
   \<and> detail_error_text (sample_contract Completed (Some ''stale'')) = None
   \<and> list_error_text (sample_contract Completed (Some ''stale'')) = None"
  using processing_metadata_shape [of "processing (sample_contract Failed (Some ''boom''))"
      "sample_contract Failed (Some ''boom'')" "''boom''"]
    processing_metadata_shape [of "processing (sample_contract Failed (Some ''boom''))"
      "sample_contract Completed (Some ''stale'')" "''boom''"]
  by (auto simp add: sample_contract_simps)

subsection \<open>Reprocess options\<close>

text \<open>
  C3, as stated, fails: a reprocess request with both overrides set carries them as
  \<open>use_ocr\<close> and \<open>use_llm\<close>; no parameter is named \<open>use_model\<close>.
\<close>

theorem reprocess_use_model_counterexample:
  "''use_model'' \<notin> set (map fst (params (reprocessContract ''c1'' \<lparr>use_ocr = Some True, use_llm = Some True\<rparr>)))
   \<and> map fst (params (reprocessContract ''c1'' \<lparr>use_ocr = Some True, use_llm = Some True\<rparr>))
       = [''use_ocr'', ''use_llm'']"
  by (simp add: reprocessContract_def ReprocessOptions_params_def)

text \<open>
  C3, amended. The reprocess command is a POST to \<open>/contracts/{id}/reprocess\<close> whose
  query parameters are exactly the overrides that are set, under the names \<open>use_ocr\<close>
  and \<open>use_llm\<close>; the detail page's reprocess request carries \<open>use_ocr = true\<close> alone.
\<close>

theorem reprocess_option_names:
  "meth (reprocessContract contractId opts) = POST
   \<and> url (reprocessContract contractId opts) = ''/contracts/'' @ contractId @ ''/reprocess''
   \<and> params (reprocessContract contractId opts)
       = (case use_ocr opts of None \<Rightarrow> [] | Some b \<Rightarrow> [(''use_ocr'', PBool b)])
         @ (case use_llm opts of None \<Rightarrow> [] | Some b \<Rightarrow> [(''use_llm'', PBool b)])
   \<and> map fst (params (reprocessContract contractId opts))
       = (if use_ocr opts = None then [] else [''use_ocr''])
         @ (if use_llm opts = None then [] else [''use_llm''])
   \<and> handleReprocess (Some c)
       = [reprocessContract (contract_id c) \<lparr>use_ocr = Some True, use_llm = None\<rparr>]
   \<and> map (\<lambda>r. params r) (handleReprocess (Some c)) = [[(''use_ocr'', PBool True)]]
   \<and> handleReprocess None = []"
  by (auto simp add: reprocessContract_def ReprocessOptions_params_def handleReprocess_def
      split: option.split)

subsection \<open>The upload form\<close>

lemma lower_literals:
  "toLowerCase ''application/pdf'' = ''application/pdf''"
  "toLowerCase ''.pdf'' = ''.pdf''"
  by code_simp+

lemma dropzone_options_simps:
  "accept dropzone_options = [(''application/pdf'', [''.pdf''])]"
  "maxFiles dropzone_options = 1"
  "maxSize dropzone_options = 52428800"
  by (simp_all add: dropzone_options_def)

lemma accept_attr:
  "acceptPropAsAcceptAttr [(''application/pdf'', [''.pdf''])] = [''application/pdf'', ''.pdf'']"
  by (simp add: acceptPropAsAcceptAttr_def)

lemma type_matches_mime:
  "type_matches f ''application/pdf'' = (toLowerCase (file_type f) = ''application/pdf'')"
  by (simp add: type_matches_def lower_literals endsWith_def)

lemma type_matches_ext:
  "type_matches f ''.pdf'' = endsWith (toLowerCase (file_name f)) ''.pdf''"
  by (simp add: type_matches_def lower_literals)

lemma fileAccepted_options:
  "fileAccepted f [''application/pdf'', ''.pdf''] = passes_type_check f"
  by (auto simp add: fileAccepted_def type_matches_mime type_matches_ext
      passes_type_check_def)

lemma file_errors_options:
  "file_errors dropzone_options f =
     (if passes_type_check f then [] else [File_invalid_type])
     @ (if file_size f \<le> 50 * 1024 * 1024 then [] else [File_too_large])"
  by (simp add: file_errors_def accept_attr fileAccepted_options fileMatchSize_def
      dropzone_options_simps not_less)

lemma file_errors_empty_iff: "file_errors dropzone_options f = [] \<longleftrightarrow> passes_checks f"
  by (simp add: file_errors_options passes_checks_def)

lemma accepted_files:
  "fst (drop_files dropzone_options tbl files) =
     (if length (filter passes_checks (map (withMimeType tbl) files)) > 1 then []
      else filter passes_checks (map (withMimeType tbl) files))"
  by (simp add: drop_files_def Let_def file_errors_empty_iff dropzone_options_simps)

lemma rejected_files:
  "snd (drop_files dropzone_options tbl files) =
     map (\<lambda>f. \<lparr>rejected_file = f, errors = file_errors dropzone_options f\<rparr>)
       (filter (\<lambda>f. \<not> passes_checks f) (map (withMimeType tbl) files))
     @ (if length (filter passes_checks (map (withMimeType tbl) files)) > 1
        then map (\<lambda>f. \<lparr>rejected_file = f, errors = [Too_many_files]\<rparr>)
               (filter passes_checks (map (withMimeType tbl) files))
        else [])"
  by (simp add: drop_files_def Let_def file_errors_empty_iff dropzone_options_simps)

lemma onDrop_upload:
  "UploadContract f \<in> set (onDrop fs) \<longleftrightarrow> (fs \<noteq> [] \<and> f = hd fs)"
  by (cases fs) (auto simp: onDrop_def)

lemma upload_only_accepted:
  assumes "UploadContract g \<in> set (present_files tbl files)"
  shows "filter passes_checks (map (withMimeType tbl) files) = [g]"
proof -
  let ?a = "filter passes_checks (map (withMimeType tbl) files)"
  from assms have ne: "fst (drop_files dropzone_options tbl files) \<noteq> []"
    and hd: "g = hd (fst (drop_files dropzone_options tbl files))"
    by (simp_all add: present_files_def onDrop_upload)
  from ne have small: "\<not> length ?a > 1"
    and eq: "fst (drop_files dropzone_options tbl files) = ?a"
    by (auto simp: accepted_files split: if_splits)
  from ne eq have "?a \<noteq> []" by simp
  with small have "length ?a = 1" by (cases ?a) auto
  then obtain x where x: "?a = [x]" by (cases ?a) auto
  with hd eq show ?thesis by simp
qed

lemma failing_file_rejected:
  assumes "g \<in> set (map (withMimeType tbl) files)" and "\<not> passes_checks g"
  shows "\<exists>r \<in> set (shown_rejections tbl files). rejected_file r = g \<and> errors r \<noteq> []"
proof -
  let ?r = "\<lparr>rejected_file = g, errors = file_errors dropzone_options g\<rparr>"
  have "?r \<in> set (shown_rejections tbl files)"
    using assms by (auto simp: shown_rejections_def rejected_files)
  moreover have "errors ?r \<noteq> []" using assms(2) by (simp add: file_errors_empty_iff)
  ultimately show ?thesis by force
qed

lemma withMimeType_keeps:
  "file_name (withMimeType tbl f) = file_name f"
  "file_size (withMimeType tbl f) = file_size f"
  "file_type f \<noteq> [] \<Longrightarrow> withMimeType tbl f = f"
  by (simp_all add: withMimeType_def split: option.split)

lemma endsWith_scan_pdf: "endsWith (toLowerCase ''scan.pdf'') ''.pdf''" by code_simp
lemma endsWith_notes_txt: "\<not> endsWith (toLowerCase ''notes.txt'') ''.pdf''" by code_simp
lemma lower_text_plain: "toLowerCase ''text/plain'' \<noteq> ''application/pdf''" by code_simp
lemma file_extension_scan_pdf: "file_extension ''scan.pdf'' = Some ''pdf''" by code_simp

text \<open>
  C5, as stated, fails: a file named \<open>scan.pdf\<close> that comes with the MIME type
  \<open>text/plain\<close> is not of type \<open>application/pdf\<close>, yet it passes the form's type check
  through the \<open>.pdf\<close> extension listed in \<open>accept\<close>; it is not rejected and the
  upload request is issued for it.
\<close>

theorem non_pdf_mime_uploaded_counterexample:
  "file_type \<lparr>file_name = ''scan.pdf'', file_type = ''text/plain'', file_size = 1000\<rparr>
     \<noteq> ''application/pdf''
   \<and> present_files (map_of COMMON_MIME_TYPES)
       [\<lparr>file_name = ''scan.pdf'', file_type = ''text/plain'', file_size = 1000\<rparr>]
     = [SetUploadProgress 10,
        UploadContract \<lparr>file_name = ''scan.pdf'', file_type = ''text/plain'', file_size = 1000\<rparr>]
   \<and> shown_rejections (map_of COMMON_MIME_TYPES)
       [\<lparr>file_name = ''scan.pdf'', file_type = ''text/plain'', file_size = 1000\<rparr>] = []"
  by (simp add: present_files_def shown_rejections_def accepted_files rejected_files
      withMimeType_keeps passes_checks_def passes_type_check_def endsWith_scan_pdf onDrop_def)

text \<open>
  C5, amended. Take each presented file as the dropzone sees it: with its own MIME type,
  or, when it came without one, with the type the table of common types lists for its
  extension. An upload request is issued only for such a file that passes the type check
  (MIME type \<open>application/pdf\<close>, or a name ending in \<open>.pdf\<close>, or the placeholder type
  of a dragged file) and is at most 50 MB, and then it is the only request. A presented
  file that fails the type check or is larger than 50 MB is shown as rejected with a
  validation error, and no upload request is issued for it.
\<close>

theorem upload_only_for_accepted_file:
  "(UploadContract g \<in> set (present_files tbl files) \<longrightarrow>
      g \<in> withMimeType tbl ` set files
      \<and> (toLowerCase (file_type g) = ''application/pdf''
         \<or> endsWith (toLowerCase (file_name g)) ''.pdf''
         \<or> file_type g = ''application/x-moz-file'')
      \<and> file_size g \<le> 50 * 1024 * 1024
      \<and> present_files tbl files = [SetUploadProgress 10, UploadContract g])
   \<and> (f \<in> set files \<and> g = withMimeType tbl f
       \<and> (toLowerCase (file_type g) \<noteq> ''application/pdf''
            \<and> \<not> endsWith (toLowerCase (file_name g)) ''.pdf''
            \<and> file_type g \<noteq> ''application/x-moz-file''
          \<or> file_size g > 50 * 1024 * 1024) \<longrightarrow>
      (\<exists>r \<in> set (shown_rejections tbl files). rejected_file r = g \<and> errors r \<noteq> [])
      \<and> UploadContract g \<notin> set (present_files tbl files))
   \<and> file_name (withMimeType tbl f) = file_name f
   \<and> file_size (withMimeType tbl f) = file_size f
   \<and> (file_type f \<noteq> [] \<longrightarrow> withMimeType tbl f = f)"
proof (intro conjI impI)
  assume up: "UploadContract g \<in> set (present_files tbl files)"
  have one: "filter passes_checks (map (withMimeType tbl) files) = [g]"
    by (rule upload_only_accepted [OF up])
  then have "g \<in> set (filter passes_checks (map (withMimeType tbl) files))" by simp
  then have mem: "g \<in> withMimeType tbl ` set files" and ok: "passes_checks g" by simp_all
  show "g \<in> withMimeType tbl ` set files" by (rule mem)
  show "toLowerCase (file_type g) = ''application/pdf''
         \<or> endsWith (toLowerCase (file_name g)) ''.pdf''
         \<or> file_type g = ''application/x-moz-file''"
    using ok by (simp add: passes_checks_def passes_type_check_def)
  show "file_size g \<le> 50 * 1024 * 1024" using ok by (simp add: passes_checks_def)
  show "present_files tbl files = [SetUploadProgress 10, UploadContract g]"
    by (simp add: present_files_def accepted_files one onDrop_def)
next
  assume bad: "f \<in> set files \<and> g = withMimeType tbl f
       \<and> (toLowerCase (file_type g) \<noteq> ''application/pdf''
            \<and> \<not> endsWith (toLowerCase (file_name g)) ''.pdf''
            \<and> file_type g \<noteq> ''application/x-moz-file''
          \<or> file_size g > 50 * 1024 * 1024)"
  then have mem: "g \<in> set (map (withMimeType tbl) files)" and no: "\<not> passes_checks g"
    by (auto simp: passes_checks_def passes_type_check_def)
  show "\<exists>r \<in> set (shown_rejections tbl files). rejected_file r = g \<and> errors r \<noteq> []"
    by (rule failing_file_rejected [OF mem no])
  show "UploadContract g \<notin> set (present_files tbl files)"
  proof
    assume "UploadContract g \<in> set (present_files tbl files)"
    then have "filter passes_checks (map (withMimeType tbl) files) = [g]"
      by (rule upload_only_accepted)
    then have "g \<in> set (filter passes_checks (map (withMimeType tbl) files))" by simp
    with no show False by simp
  qed
next
  show "file_name (withMimeType tbl f) = file_name f" by (rule withMimeType_keeps)
  show "file_size (withMimeType tbl f) = file_size f" by (rule withMimeType_keeps)
next
  assume "file_type f \<noteq> []"
  then show "withMimeType tbl f = f" by (rule withMimeType_keeps)
qed

theorem upload_only_for_accepted_file_witness:
  "present_files (map_of COMMON_MIME_TYPES)
     [\<lparr>file_name = ''notes.txt'', file_type = ''text/plain'', file_size = 10\<rparr>,
      \<lparr>file_name = ''scan.pdf'', file_type = [], file_size = 2048\<rparr>]
     = [SetUploadProgress 10,
        UploadContract \<lparr>file_name = ''scan.pdf'', file_type = ''application/pdf'', file_size = 2048\<rparr>]
   \<and> UploadContract \<lparr>file_name = ''notes.txt'', file_type = ''text/plain'', file_size = 10\<rparr>
       \<notin> set (present_files (map_of COMMON_MIME_TYPES)
          [\<lparr>file_name = ''notes.txt'', file_type = ''text/plain'', file_size = 10\<rparr>,
           \<lparr>file_name = ''scan.pdf'', file_type = [], file_size = 2048\<rparr>])
   \<and> UploadContract \<lparr>file_name = ''big.pdf'', file_type = ''application/pdf'', file_size = 52428801\<rparr>
       \<notin> set (present_files (map_of COMMON_MIME_TYPES)
          [\<lparr>file_name = ''big.pdf'', file_type = ''application/pdf'', file_size = 52428801\<rparr>])"
  using upload_only_for_accepted_file
      [of "\<lparr>file_name = ''scan.pdf'', file_type = ''application/pdf'', file_size = 2048\<rparr>"
          "map_of COMMON_MIME_TYPES"
          "[\<lparr>file_name = ''notes.txt'', file_type = ''text/plain'', file_size = 10\<rparr>,
            \<lparr>file_name = ''scan.pdf'', file_type = [], file_size = 2048\<rparr>]"
          "\<lparr>file_name = ''scan.pdf'', file_type = [], file_size = 2048\<rparr>"]
    upload_only_for_accepted_file
      [of "\<lparr>file_name = ''notes.txt'', file_type = ''text/plain'', file_size = 10\<rparr>"
          "map_of COMMON_MIME_TYPES"
          "[\<lparr>file_name = ''notes.txt'', file_type = ''text/plain'', file_size = 10\<rparr>,
            \<lparr>file_name = ''scan.pdf'', file_type = [], file_size = 2048\<rparr>]"
          "\<lparr>file_name = ''notes.txt'', file_type = ''text/plain'', file_size = 10\<rparr>"]
    upload_only_for_accepted_file
      [of "\<lparr>file_name = ''big.pdf'', file_type = ''application/pdf'', file_size = 52428801\<rparr>"
          "map_of COMMON_MIME_TYPES"
          "[\<lparr>file_name = ''big.pdf'', file_type = ''application/pdf'', file_size = 52428801\<rparr>]"
          "\<lparr>file_name = ''big.pdf'', file_type = ''application/pdf'', file_size = 52428801\<rparr>"]
  by (simp add: present_files_def accepted_files withMimeType_def file_extension_scan_pdf
      COMMON_MIME_TYPES_def passes_checks_def passes_type_check_def
      endsWith_notes_txt endsWith_scan_pdf lower_text_plain lower_literals onDrop_def)

end
